theory Spec2Isabelle
  imports Complex_Main "HOL-Library.Word"
begin

section \<open>Numbers, strings and small helpers\<close>

text \<open>
  JavaScript numbers are modelled as real numbers: the arithmetic of the source is read
  as exact arithmetic, so rounding, \<open>NaN\<close> and the infinities are outside the model.
  Where \<open>layout.ts\<close> divides by a quantity that can be zero the model returns an error
  value instead of a number, because the reals have no \<open>Infinity\<close> or \<open>NaN\<close> to return.
  In \<open>IdeaMap.tsx\<close> the only divisor that varies is the camera scale, which every
  handler keeps in \<open>[0.25, 3]\<close> (\<open>step_keeps_scale\<close> below).
  A JavaScript string is its sequence of UTF-16 code units, which is what \<open>.length\<close>
  counts.
\<close>

type_synonym jsstring = "16 word list"

text \<open>\<open>clamp(n, min, max)\<close>, defined identically in \<open>IdeaMap.tsx\<close> and \<open>layout.ts\<close>.\<close>

definition clamp :: "real \<Rightarrow> real \<Rightarrow> real \<Rightarrow> real" where
  "clamp n lo hi = max lo (min hi n)"

text \<open>\<open>Math.hypot(a, b)\<close>.\<close>

definition hypot :: "real \<Rightarrow> real \<Rightarrow> real" where
  "hypot a b = sqrt (a * a + b * b)"

section \<open>layout.ts\<close>

text \<open>
  An idea as its type declares it; \<open>message\<close> is a string, so the guards
  \<open>idea.message?.length ?? 0\<close> and \<open>idea.message ?? ""\<close> read the message itself.
\<close>

record Idea =
  idea_id :: jsstring
  idea_message :: jsstring
  createdAt :: "real option"
  likeCount :: "nat option"

record Node =
  node_id :: jsstring
  node_message :: jsstring
  node_x :: real
  node_y :: real
  node_r :: real

record Obstacle =
  obs_x :: real
  obs_y :: real
  obs_r :: real

record LayoutOptions =
  opt_gap :: "real option"
  opt_density :: "real option"
  opt_iterations :: "real option"
  opt_centerObstacle :: "Obstacle option"

text \<open>
  What can go wrong while \<open>layoutIdeas\<close> runs: reading a property of \<open>undefined\<close>
  (an array read out of range followed by \<open>.x\<close>) throws a \<open>TypeError\<close>; a division
  whose divisor is zero is recorded as \<open>DivisionByZero\<close>.
\<close>

datatype layout_error = TypeError | DivisionByZero

definition divide_checked :: "real \<Rightarrow> real \<Rightarrow> layout_error + real" where
  "divide_checked a b = (if b = 0 then Inl DivisionByZero else Inr (a / b))"

definition hexToPixel :: "int \<Rightarrow> int \<Rightarrow> real \<Rightarrow> real \<times> real" where
  "hexToPixel q r spacing =
     (spacing * (sqrt 3 * real_of_int q + (sqrt 3 / 2) * real_of_int r),
      spacing * ((3 / 2) * real_of_int r))"

subsection \<open>axialSpiral\<close>

definition dirs :: "(int \<times> int) list" where
  "dirs = [(1, 0), (1, -1), (0, -1), (-1, 0), (-1, 1), (0, 1)]"

text \<open>
  The state of the walk is \<open>(coords, q, r, returned)\<close>. The flag records that the
  \<open>return coords\<close> inside the innermost loop was taken: from then on no step does
  anything. \<open>spiralStep\<close> is the body of the \<open>step\<close> loop.
\<close>

type_synonym spiral_state = "(int \<times> int) list \<times> int \<times> int \<times> bool"

definition spiralStep :: "nat \<Rightarrow> int \<times> int \<Rightarrow> spiral_state \<Rightarrow> spiral_state" where
  "spiralStep n d st =
     (case st of (coords, q, r, returned) \<Rightarrow>
        if returned then st
        else if length coords \<ge> n then (coords, q, r, True)
        else (coords @ [(q, r)], q + fst d, r + snd d, False))"

text \<open>One side of ring \<open>k\<close>: \<open>k\<close> steps in direction \<open>d\<close>.\<close>

definition spiralSide :: "nat \<Rightarrow> nat \<Rightarrow> int \<times> int \<Rightarrow> spiral_state \<Rightarrow> spiral_state" where
  "spiralSide n k d st = ((spiralStep n d) ^^ k) st"

text \<open>Ring \<open>k\<close>: start at \<open>(-k, k)\<close> and walk the six sides in the order of \<open>dirs\<close>.\<close>

definition spiralRing :: "nat \<Rightarrow> nat \<Rightarrow> (int \<times> int) list \<Rightarrow> spiral_state" where
  "spiralRing n k coords = fold (spiralSide n k) dirs (coords, - int k, int k, False)"

text \<open>
  The \<open>while (coords.length < n)\<close> loop. The source's ring counter starts at 1 and is
  incremented after each ring; the argument \<open>k\<close> here is the number of rings already
  walked, so the ring walked next is \<open>Suc k\<close>.
\<close>

function spiralLoop :: "nat \<Rightarrow> nat \<Rightarrow> (int \<times> int) list \<Rightarrow> (int \<times> int) list" where
  "spiralLoop n k coords =
     (if length coords < n then
        (case spiralRing n (Suc k) coords of
           (coords', q, r, returned) \<Rightarrow>
             if returned then coords' else spiralLoop n (Suc k) coords')
      else coords)"
  by pat_completeness auto
termination
proof -
  have step: "\<exists>cs q r. st = (cs, q, r, False) \<and> length cs' = Suc (length cs)"
    if "spiralStep n d st = (cs', q', r', False)" for n d st cs' q' r'
    using that by (cases st) (auto simp: spiralStep_def split: if_splits)
  have side: "\<exists>cs q r. st = (cs, q, r, False) \<and> length cs' = length cs + k"
    if "spiralSide n k d st = (cs', q', r', False)" for n k d st cs' q' r'
    using that
  proof (induction k arbitrary: cs' q' r')
    case 0
    then show ?case by (simp add: spiralSide_def)
  next
    case (Suc k)
    from Suc.prems have "spiralStep n d (spiralSide n k d st) = (cs', q', r', False)"
      by (simp add: spiralSide_def)
    then obtain cs1 q1 r1 where mid: "spiralSide n k d st = (cs1, q1, r1, False)"
      and len: "length cs' = Suc (length cs1)"
      using step by blast
    from Suc.IH [OF mid] len show ?case by auto
  qed
  have sides: "\<exists>cs q r. st = (cs, q, r, False) \<and> length cs' = length cs + length ds * k"
    if "fold (spiralSide n k) ds st = (cs', q', r', False)" for n k ds st cs' q' r'
    using that
  proof (induction ds arbitrary: st)
    case Nil
    then show ?case by simp
  next
    case (Cons d ds)
    from Cons.prems
    have "fold (spiralSide n k) ds (spiralSide n k d st) = (cs', q', r', False)"
      by simp
    from Cons.IH [OF this] obtain cs1 q1 r1
      where mid: "spiralSide n k d st = (cs1, q1, r1, False)"
        and len: "length cs' = length cs1 + length ds * k" by blast
    from side [OF mid] len show ?case by auto
  qed
  have ring: "length cs' = length coords + 6 * k"
    if "spiralRing n k coords = (cs', q', r', False)" for n k coords cs' q' r'
    using sides [OF that [unfolded spiralRing_def]] by (auto simp: dirs_def)
  show ?thesis
    by (relation "measure (\<lambda>(n, k, coords). n - length coords)")
       (auto dest!: ring [OF sym])
qed

definition axialSpiral :: "nat \<Rightarrow> (int \<times> int) list" where
  "axialSpiral n = (if n \<le> 1 then [(0, 0)] else spiralLoop n 0 [(0, 0)])"

declare spiralLoop.simps [simp del]

subsection \<open>layoutIdeas: constants and initial placement\<close>

definition baseR :: real where
  "baseR = 32"

text \<open>The \<open>MAX_VISUAL_MUL\<close> of \<open>layout.ts\<close>.\<close>

definition LAYOUT_MAX_VISUAL_MUL :: real where
  "LAYOUT_MAX_VISUAL_MUL = 122 / 100"

definition maxR :: real where
  "maxR = baseR * (135 / 100) * LAYOUT_MAX_VISUAL_MUL"

definition gapOf :: "LayoutOptions \<Rightarrow> real" where
  "gapOf opts = (case opt_gap opts of None \<Rightarrow> 8 | Some g \<Rightarrow> g)"

definition densityOf :: "LayoutOptions \<Rightarrow> real" where
  "densityOf opts = (case opt_density opts of None \<Rightarrow> 86 / 100 | Some d \<Rightarrow> d)"

definition iterationsOf :: "LayoutOptions \<Rightarrow> real" where
  "iterationsOf opts = (case opt_iterations opts of None \<Rightarrow> 32 | Some k \<Rightarrow> k)"

definition spacingOf :: "LayoutOptions \<Rightarrow> real" where
  "spacingOf opts = ((2 * maxR + gapOf opts) / sqrt 3) * densityOf opts"

definition cellSizeOf :: "LayoutOptions \<Rightarrow> real" where
  "cellSizeOf opts = (2 * maxR + gapOf opts) * (112 / 100)"

text \<open>\<open>textScale\<close>: \<open>Math.floor(msgLen / 7)\<close> of a length is the integer quotient.\<close>

definition textScale :: "nat \<Rightarrow> real" where
  "textScale msgLen = clamp (1 + real (msgLen div 7) * (6 / 100)) 1 (128 / 100)"

definition layoutRadius :: "nat \<Rightarrow> real" where
  "layoutRadius msgLen = clamp (baseR * textScale msgLen * LAYOUT_MAX_VISUAL_MUL) 24 maxR"

text \<open>The callback of \<open>ideas.map\<close>; \<open>coords[i] ?? {q: 0, r: 0}\<close> guards the read.\<close>

definition initNode :: "real \<Rightarrow> (int \<times> int) list \<Rightarrow> nat \<Rightarrow> Idea \<Rightarrow> Node" where
  "initNode spacing coords i idea =
     (let c = (if i < length coords then coords ! i else (0, 0));
          p = hexToPixel (fst c) (snd c) spacing
      in \<lparr> node_id = idea_id idea, node_message = idea_message idea,
           node_x = fst p, node_y = snd p,
           node_r = layoutRadius (length (idea_message idea)) \<rparr>)"

definition initNodes :: "real \<Rightarrow> Idea list \<Rightarrow> Node list" where
  "initNodes spacing ideas =
     map (\<lambda>(i, idea). initNode spacing (axialSpiral (length ideas)) i idea)
         (zip [0 ..< length ideas] ideas)"

subsection \<open>layoutIdeas: one relaxation pass\<close>

text \<open>
  The grid \<open>Map<string, number[]>\<close>. The key \<open>`${ix},${iy}`\<close> of two integers is
  modelled by the pair itself.
\<close>

type_synonym grid = "int \<times> int \<Rightarrow> nat list option"

definition cellOf :: "real \<Rightarrow> real \<Rightarrow> real \<Rightarrow> layout_error + (int \<times> int)" where
  "cellOf cellSize px py =
     (case divide_checked px cellSize of Inl e \<Rightarrow> Inl e | Inr qx \<Rightarrow>
      case divide_checked py cellSize of Inl e \<Rightarrow> Inl e | Inr qy \<Rightarrow>
        Inr (\<lfloor>qx\<rfloor>, \<lfloor>qy\<rfloor>))"

text \<open>The bucketing loop, from index \<open>i\<close> on.\<close>

fun gridInsert :: "real \<Rightarrow> nat \<Rightarrow> Node list \<Rightarrow> grid \<Rightarrow> layout_error + grid" where
  "gridInsert cellSize i [] g = Inr g"
| "gridInsert cellSize i (n # ns) g =
     (case cellOf cellSize (node_x n) (node_y n) of
        Inl e \<Rightarrow> Inl e
      | Inr key \<Rightarrow>
          gridInsert cellSize (Suc i) ns
            (g(key \<mapsto> (case g key of Some arr \<Rightarrow> arr @ [i] | None \<Rightarrow> [i]))))"

text \<open>Reading \<open>nodes[i]\<close> and then a field of it.\<close>

definition nodeAt :: "Node list \<Rightarrow> nat \<Rightarrow> layout_error + Node" where
  "nodeAt nodes i = (if i < length nodes then Inr (nodes ! i) else Inl TypeError)"

text \<open>The obstacle push of node \<open>a\<close> (the body of \<open>if (obstacle)\<close>).\<close>

definition pushObstacle :: "real \<Rightarrow> Obstacle \<Rightarrow> Node \<Rightarrow> layout_error + Node" where
  "pushObstacle gap ob a =
     (let dxObs0 = node_x a - obs_x ob;
          dyObs0 = node_y a - obs_y ob;
          dObs0 = hypot dxObs0 dyObs0;
          degenerate = (dObs0 < 1 / 1000000);
          dxObs = (if degenerate then 1 else dxObs0);
          dyObs = (if degenerate then 0 else dyObs0);
          dObs = (if degenerate then 1 else dObs0);
          minDistObs = node_r a + obs_r ob + gap
      in if dObs < minDistObs then
           (let push = minDistObs - dObs in
            case divide_checked dxObs dObs of Inl e \<Rightarrow> Inl e | Inr ux \<Rightarrow>
            case divide_checked dyObs dObs of Inl e \<Rightarrow> Inl e | Inr uy \<Rightarrow>
              Inr (a\<lparr> node_x := node_x a + ux * push, node_y := node_y a + uy * push \<rparr>))
         else Inr a)"

text \<open>The pair push of \<open>a = nodes[i]\<close> and \<open>b = nodes[j]\<close>.\<close>

definition pushPair :: "real \<Rightarrow> Node \<Rightarrow> Node \<Rightarrow> layout_error + (Node \<times> Node)" where
  "pushPair gap a b =
     (let dx0 = node_x b - node_x a;
          dy0 = node_y b - node_y a;
          d0 = hypot dx0 dy0;
          degenerate = (d0 < 1 / 1000000);
          dx = (if degenerate then 1 else dx0);
          dy = (if degenerate then 0 else dy0);
          d = (if degenerate then 1 else d0);
          minDist = node_r a + node_r b + gap
      in if d < minDist then
           (let overlap = minDist - d in
            case divide_checked dx d of Inl e \<Rightarrow> Inl e | Inr nx \<Rightarrow>
            case divide_checked dy d of Inl e \<Rightarrow> Inl e | Inr ny \<Rightarrow>
              Inr (a\<lparr> node_x := node_x a - nx * (overlap * (1 / 2)),
                        node_y := node_y a - ny * (overlap * (1 / 2)) \<rparr>,
                   b\<lparr> node_x := node_x b + nx * (overlap * (1 / 2)),
                        node_y := node_y b + ny * (overlap * (1 / 2)) \<rparr>))
         else Inr (a, b))"

text \<open>\<open>for (const j of arr)\<close>: \<open>a\<close> and \<open>b\<close> alias \<open>nodes[i]\<close> and \<open>nodes[j]\<close>.\<close>

fun pairLoop :: "real \<Rightarrow> nat \<Rightarrow> nat list \<Rightarrow> Node list \<Rightarrow> layout_error + Node list" where
  "pairLoop gap i [] nodes = Inr nodes"
| "pairLoop gap i (j # js) nodes =
     (if j \<le> i then pairLoop gap i js nodes
      else
        case nodeAt nodes i of Inl e \<Rightarrow> Inl e | Inr a \<Rightarrow>
        case nodeAt nodes j of Inl e \<Rightarrow> Inl e | Inr b \<Rightarrow>
        case pushPair gap a b of Inl e \<Rightarrow> Inl e | Inr (a', b') \<Rightarrow>
          pairLoop gap i js (nodes[i := a', j := b']))"

text \<open>The offsets \<open>(ox, oy)\<close> in the order of the two nested loops (\<open>oy\<close> outer).\<close>

definition neighbourOffsets :: "(int \<times> int) list" where
  "neighbourOffsets =
     [(-1, -1), (0, -1), (1, -1), (-1, 0), (0, 0), (1, 0), (-1, 1), (0, 1), (1, 1)]"

fun cellLoop :: "real \<Rightarrow> nat \<Rightarrow> grid \<Rightarrow> int \<Rightarrow> int \<Rightarrow> (int \<times> int) list \<Rightarrow> Node list
    \<Rightarrow> layout_error + Node list" where
  "cellLoop gap i g ix iy [] nodes = Inr nodes"
| "cellLoop gap i g ix iy (off # offs) nodes =
     (case g (ix + fst off, iy + snd off) of
        None \<Rightarrow> cellLoop gap i g ix iy offs nodes
      | Some arr \<Rightarrow>
          (case pairLoop gap i arr nodes of
             Inl e \<Rightarrow> Inl e
           | Inr nodes' \<Rightarrow> cellLoop gap i g ix iy offs nodes'))"

text \<open>The body of the \<open>for i\<close> loop of one pass.\<close>

definition relaxNode :: "real \<Rightarrow> Obstacle option \<Rightarrow> real \<Rightarrow> grid \<Rightarrow> nat \<Rightarrow> Node list
    \<Rightarrow> layout_error + Node list" where
  "relaxNode gap obstacle cellSize g i nodes =
     (case nodeAt nodes i of Inl e \<Rightarrow> Inl e | Inr a \<Rightarrow>
      case (case obstacle of None \<Rightarrow> Inr a | Some ob \<Rightarrow> pushObstacle gap ob a) of
        Inl e \<Rightarrow> Inl e
      | Inr a1 \<Rightarrow>
          (case cellOf cellSize (node_x a1) (node_y a1) of
             Inl e \<Rightarrow> Inl e
           | Inr cell \<Rightarrow>
               cellLoop gap i g (fst cell) (snd cell) neighbourOffsets (nodes[i := a1])))"

fun nodeLoop :: "real \<Rightarrow> Obstacle option \<Rightarrow> real \<Rightarrow> grid \<Rightarrow> nat list \<Rightarrow> Node list
    \<Rightarrow> layout_error + Node list" where
  "nodeLoop gap obstacle cellSize g [] nodes = Inr nodes"
| "nodeLoop gap obstacle cellSize g (i # is) nodes =
     (case relaxNode gap obstacle cellSize g i nodes of
        Inl e \<Rightarrow> Inl e
      | Inr nodes' \<Rightarrow> nodeLoop gap obstacle cellSize g is nodes')"

text \<open>The body of the \<open>for it\<close> loop: bucket, then relax every node in index order.\<close>

definition relaxPass :: "real \<Rightarrow> Obstacle option \<Rightarrow> real \<Rightarrow> Node list
    \<Rightarrow> layout_error + Node list" where
  "relaxPass gap obstacle cellSize nodes =
     (case gridInsert cellSize 0 nodes Map.empty of
        Inl e \<Rightarrow> Inl e
      | Inr g \<Rightarrow> nodeLoop gap obstacle cellSize g [0 ..< length nodes] nodes)"

fun relaxLoop :: "nat \<Rightarrow> real \<Rightarrow> Obstacle option \<Rightarrow> real \<Rightarrow> Node list
    \<Rightarrow> layout_error + Node list" where
  "relaxLoop 0 gap obstacle cellSize nodes = Inr nodes"
| "relaxLoop (Suc k) gap obstacle cellSize nodes =
     (case relaxPass gap obstacle cellSize nodes of
        Inl e \<Rightarrow> Inl e
      | Inr nodes' \<Rightarrow> relaxLoop k gap obstacle cellSize nodes')"

text \<open>
  \<open>for (let it = 0; it < iterations; it++)\<close> runs its body \<open>\<lceil>iterations\<rceil>\<close> times for a
  positive \<open>iterations\<close> and not at all otherwise.
\<close>

definition passCount :: "LayoutOptions \<Rightarrow> nat" where
  "passCount opts = nat \<lceil>iterationsOf opts\<rceil>"

definition layoutIdeas :: "Idea list \<Rightarrow> LayoutOptions \<Rightarrow> layout_error + Node list" where
  "layoutIdeas ideas opts =
     relaxLoop (passCount opts) (gapOf opts) (opt_centerObstacle opts) (cellSizeOf opts)
       (initNodes (spacingOf opts) ideas)"

section \<open>IdeaMap.tsx: camera\<close>

record Camera =
  cam_cx :: real
  cam_cy :: real
  cam_scale :: real

text \<open>What \<open>canvas.getBoundingClientRect()\<close> returns; an input of every handler.\<close>

record Rect =
  rect_left :: real
  rect_top :: real
  rect_width :: real
  rect_height :: real

definition worldToScreen :: "Camera \<Rightarrow> Rect \<Rightarrow> real \<Rightarrow> real \<Rightarrow> real \<times> real" where
  "worldToScreen cam rect wx wy =
     ((wx - cam_cx cam) * cam_scale cam + rect_width rect / 2,
      (wy - cam_cy cam) * cam_scale cam + rect_height rect / 2)"

definition screenToWorld :: "Camera \<Rightarrow> Rect \<Rightarrow> real \<Rightarrow> real \<Rightarrow> real \<times> real" where
  "screenToWorld cam rect sx sy =
     ((sx - rect_width rect / 2) / cam_scale cam + cam_cx cam,
      (sy - rect_height rect / 2) / cam_scale cam + cam_cy cam)"

text \<open>
  \<open>zoomAt\<close> changes the camera and \<open>clampSoftUntilRef\<close>; the pair returned is the new
  camera and the new value of \<open>clampSoftUntilRef.current\<close>. \<open>now\<close> is what
  \<open>performance.now()\<close> returns.
\<close>

definition zoomAt :: "Rect \<Rightarrow> real \<Rightarrow> real \<Rightarrow> real \<Rightarrow> real \<Rightarrow> Camera \<Rightarrow> Camera \<times> real" where
  "zoomAt rect now sx sy factor cam =
     (let before = screenToWorld cam rect sx sy;
          cam1 = cam\<lparr> cam_scale := clamp (cam_scale cam * factor) (25 / 100) 3 \<rparr>;
          after = screenToWorld cam1 rect sx sy;
          cam2 = cam1\<lparr> cam_cx := cam_cx cam1 + (fst before - fst after),
                          cam_cy := cam_cy cam1 + (snd before - snd after) \<rparr>
      in (cam2, now + 320))"

section \<open>IdeaMap.tsx: per-tile state\<close>

record Flip =
  flip_p :: real
  flip_target :: real

text \<open>\<open>setFlipTarget\<close> on the map \<open>flipRef.current\<close>; \<open>target\<close> is 0 or 1.\<close>

definition setFlipTarget :: "jsstring \<Rightarrow> real \<Rightarrow> (jsstring \<rightharpoonup> Flip) \<Rightarrow> (jsstring \<rightharpoonup> Flip)" where
  "setFlipTarget tid target m =
     (let cur = (case m tid of None \<Rightarrow> \<lparr> flip_p = target, flip_target = target \<rparr> | Some c \<Rightarrow> c)
      in m(tid \<mapsto> cur\<lparr> flip_target := target \<rparr>))"

text \<open>
  \<open>new Set(likedIds)\<close> iterates in insertion order, each element once: the list without
  its later duplicates.
\<close>

fun newSet :: "'a list \<Rightarrow> 'a list" where
  "newSet [] = []"
| "newSet (x # xs) = x # filter (\<lambda>y. y \<noteq> x) (newSet xs)"

text \<open>
  The effect that restores the flips of liked tiles (dependency \<open>[likedIds]\<close>). It
  returns the new \<open>flipRef.current\<close> and the new \<open>prevLikedRef.current\<close>.
\<close>

definition restoreLikedFlips :: "jsstring list \<Rightarrow> (jsstring \<rightharpoonup> Flip) \<times> jsstring list
    \<Rightarrow> (jsstring \<rightharpoonup> Flip) \<times> jsstring list" where
  "restoreLikedFlips likedIds st =
     (case st of (m, prev) \<Rightarrow>
        let next = newSet likedIds;
            m1 = fold (\<lambda>tid m. if tid \<notin> set prev
                                  then m(tid \<mapsto> \<lparr> flip_p = 1, flip_target = 1 \<rparr>) else m) next m;
            m2 = fold (\<lambda>tid m. if tid \<notin> set next
                                  then m(tid \<mapsto> \<lparr> flip_p = 0, flip_target = 0 \<rparr>) else m) prev m1
        in (m2, next))"

record RadiusAnim =
  anim_cur :: real
  anim_target :: real

text \<open>The \<open>MAX_VISUAL_MUL\<close> of \<open>IdeaMap.tsx\<close>.\<close>

definition MAX_VISUAL_MUL :: real where
  "MAX_VISUAL_MUL = 122 / 100"

text \<open>
  \<open>computeTargetMul\<close>, as a function of what it reads: \<open>likes\<close> is
  \<open>likeMapRef.current.get(id) ?? 0\<close> and \<open>liked\<close> is \<open>likedSetRef.current.has(id)\<close>.
\<close>

definition computeTargetMul :: "nat \<Rightarrow> bool \<Rightarrow> real" where
  "computeTargetMul likes liked =
     (let byLikes = clamp (log 2 (real likes + 1) * (5 / 100)) 0 (16 / 100);
          byMe = (if liked then 6 / 100 else 0)
      in clamp (1 + byLikes + byMe) 1 MAX_VISUAL_MUL)"

text \<open>\<open>visualMulNow\<close>: \<open>radiusAnimRef.current.get(id)?.cur ?? 1\<close>.\<close>

definition visualMulNow :: "(jsstring \<rightharpoonup> RadiusAnim) \<Rightarrow> jsstring \<Rightarrow> real" where
  "visualMulNow m tid = (case m tid of None \<Rightarrow> 1 | Some a \<Rightarrow> anim_cur a)"

text \<open>The effect that rebuilds \<open>likeMapRef.current\<close>: a later idea with the same id wins.\<close>

definition likeMapOf :: "Idea list \<Rightarrow> (jsstring \<rightharpoonup> nat)" where
  "likeMapOf ideas =
     fold (\<lambda>it m. m(idea_id it \<mapsto> (case likeCount it of None \<Rightarrow> 0 | Some k \<Rightarrow> k))) ideas Map.empty"

text \<open>
  The effect with dependencies \<open>[ideas, likedIds]\<close> that sets the size targets: a tile
  seen for the first time starts at its target.
\<close>

definition setRadiusTargets :: "Idea list \<Rightarrow> (jsstring \<rightharpoonup> nat) \<Rightarrow> jsstring set
    \<Rightarrow> (jsstring \<rightharpoonup> RadiusAnim) \<Rightarrow> (jsstring \<rightharpoonup> RadiusAnim)" where
  "setRadiusTargets ideas likeMap likedSet m =
     fold (\<lambda>it m.
        let t = computeTargetMul (case likeMap (idea_id it) of None \<Rightarrow> 0 | Some k \<Rightarrow> k)
                  (idea_id it \<in> likedSet)
        in (case m (idea_id it) of
              None \<Rightarrow> m(idea_id it \<mapsto> \<lparr> anim_cur = t, anim_target = t \<rparr>)
            | Some cur \<Rightarrow> m(idea_id it \<mapsto> cur\<lparr> anim_target := t \<rparr>)))
       ideas m"

datatype toast_kind = Like | Unlike

record Toast =
  toast_until :: real
  toast_likes :: nat
  toast_kind :: toast_kind

definition TOAST_MS :: real where
  "TOAST_MS = 2200"

section \<open>IdeaMap.tsx: hit tests\<close>

text \<open>\<open>hitTest\<close>: the first node, in array order, whose visual circle holds the point.\<close>

definition hitTest :: "Camera \<Rightarrow> Rect \<Rightarrow> Node list \<Rightarrow> (jsstring \<rightharpoonup> RadiusAnim) \<Rightarrow> real \<Rightarrow> real
    \<Rightarrow> Node option" where
  "hitTest cam rect nodes anim sx sy =
     (let w = screenToWorld cam rect sx sy
      in find (\<lambda>n. hypot (node_x n - fst w) (node_y n - snd w)
                      \<le> node_r n * visualMulNow anim (node_id n)) nodes)"

definition hitTestLogo :: "Camera \<Rightarrow> Rect \<Rightarrow> real \<times> real \<Rightarrow> real \<Rightarrow> real \<Rightarrow> real \<Rightarrow> bool" where
  "hitTestLogo cam rect cw obstacleR sx sy =
     (let w = screenToWorld cam rect sx sy
      in hypot (fst w - fst cw) (snd w - snd cw) \<le> obstacleR)"

section \<open>IdeaMap.tsx: the state behind the refs\<close>

record PointerEvent =
  pointerId :: int
  clientX :: real
  clientY :: real

record PointerState =
  ps_id :: int
  ps_x :: real
  ps_y :: real

record Pinch =
  pinch_active :: bool
  startDist :: real
  startScale :: real
  lastMidX :: real
  lastMidY :: real

record Tap =
  tap_pointerId :: int
  startX :: real
  startY :: real
  startT :: real
  tap_active :: bool

record Focus =
  focus_active :: bool
  focus_tx :: real
  focus_ty :: real

text \<open>
  One field per ref of the component that the handlers read or write.
  \<open>pointersRef\<close> is its \<open>Map\<close> in insertion order;
  \<open>onToggleLikeRef\<close> only says whether \<open>onToggleLikeRef.current\<close> is a function;
  \<open>ideasProp\<close> is the \<open>ideas\<close> prop of the last render.
\<close>

record Engine =
  camRef :: Camera
  draggingRef :: bool
  pointersRef :: "(int \<times> PointerState) list"
  pinchRef :: Pinch
  lastMoveRef :: "(real \<times> real \<times> real) option"
  velRef :: "real \<times> real"
  focusRef :: Focus
  clampSoftUntilRef :: real
  tapRef :: "Tap option"
  flipRef :: "jsstring \<rightharpoonup> Flip"
  likedSetRef :: "jsstring set"
  likeBusyRef :: "jsstring set"
  radiusAnimRef :: "jsstring \<rightharpoonup> RadiusAnim"
  toastRef :: "jsstring \<rightharpoonup> Toast"
  nodesRef :: "Node list"
  centerWorldRef :: "real \<times> real"
  obstacleRRef :: real
  onToggleLikeRef :: bool
  prevLikedRef :: "jsstring list"
  likeMapRef :: "jsstring \<rightharpoonup> nat"
  ideasProp :: "Idea list"

text \<open>\<open>Map.prototype.set\<close>, \<open>delete\<close> and \<open>has\<close> on an insertion-ordered map.\<close>

fun mapSet :: "'k \<Rightarrow> 'v \<Rightarrow> ('k \<times> 'v) list \<Rightarrow> ('k \<times> 'v) list" where
  "mapSet k v [] = [(k, v)]"
| "mapSet k v (kv # kvs) = (if fst kv = k then (k, v) # kvs else kv # mapSet k v kvs)"

definition mapDelete :: "'k \<Rightarrow> ('k \<times> 'v) list \<Rightarrow> ('k \<times> 'v) list" where
  "mapDelete k kvs = filter (\<lambda>kv. fst kv \<noteq> k) kvs"

definition mapHas :: "'k \<Rightarrow> ('k \<times> 'v) list \<Rightarrow> bool" where
  "mapHas k kvs = (k \<in> fst ` set kvs)"

section \<open>IdeaMap.tsx: pointer handlers\<close>

text \<open>
  In every handler \<open>now\<close> stands for the value of \<open>performance.now()\<close>; the calls a
  handler makes within one run are taken to return the same instant.
\<close>

definition startPinch :: "real \<Rightarrow> Engine \<Rightarrow> Engine" where
  "startPinch now s =
     (let p0 = snd (pointersRef s ! 0);
          p1 = snd (pointersRef s ! 1);
          dx = ps_x p0 - ps_x p1;
          dy = ps_y p0 - ps_y p1;
          dist = hypot dx dy;
          midX = (ps_x p0 + ps_x p1) / 2;
          midY = (ps_y p0 + ps_y p1) / 2
      in s\<lparr> pinchRef := \<lparr> pinch_active = True, startDist = dist, startScale = cam_scale (camRef s),
                        lastMidX = midX, lastMidY = midY \<rparr>,
             clampSoftUntilRef := now + 360,
             tapRef := map_option (\<lambda>t. t\<lparr> tap_active := False \<rparr>) (tapRef s) \<rparr>)"

definition onPointerDown :: "PointerEvent \<Rightarrow> real \<Rightarrow> Engine \<Rightarrow> Engine" where
  "onPointerDown e now s =
     (let s1 = s\<lparr> pointersRef := mapSet (pointerId e)
                     \<lparr> ps_id = pointerId e, ps_x = clientX e, ps_y = clientY e \<rparr> (pointersRef s),
                  draggingRef := True,
                  lastMoveRef := Some (now, clientX e, clientY e),
                  velRef := (0, 0),
                  tapRef := Some \<lparr> tap_pointerId = pointerId e, startX = clientX e,
                               startY = clientY e, startT = now, tap_active = True \<rparr>,
                  focusRef := (focusRef s)\<lparr> focus_active := False \<rparr> \<rparr>
      in if length (pointersRef s1) = 2 then startPinch now s1 else s1)"

text \<open>
  The displacement gate of \<open>onPointerMove\<close>. \<open>Math.hypypot\<close> does not exist, so
  \<open>Math.hypypot?.(dx, dy)\<close> is \<open>undefined\<close> and the gate is \<open>Math.hypot(dx, dy) > 8\<close>.
\<close>

definition tapGate :: "PointerEvent \<Rightarrow> Tap option \<Rightarrow> Tap option" where
  "tapGate e tp =
     (case tp of
        None \<Rightarrow> None
      | Some t \<Rightarrow>
          if tap_active t \<and> tap_pointerId t = pointerId e then
            (let dx = clientX e - startX t; dy = clientY e - startY t
             in if hypot dx dy > 8 then Some (t\<lparr> tap_active := False \<rparr>) else Some t)
          else Some t)"

definition pinchMove :: "real \<Rightarrow> Engine \<Rightarrow> Engine" where
  "pinchMove now s =
     (let p0 = snd (pointersRef s ! 0);
          p1 = snd (pointersRef s ! 1);
          dx = ps_x p0 - ps_x p1;
          dy = ps_y p0 - ps_y p1;
          dist = hypot dx dy;
          midX = (ps_x p0 + ps_x p1) / 2;
          midY = (ps_y p0 + ps_y p1) / 2;
          p = pinchRef s;
          factor = dist / max 1 (startDist p);
          scale' = clamp (startScale p * factor) (25 / 100) 3;
          dmx = midX - lastMidX p;
          dmy = midY - lastMidY p
      in s\<lparr> camRef := \<lparr> cam_cx = cam_cx (camRef s) - dmx / scale',
                      cam_cy = cam_cy (camRef s) - dmy / scale', cam_scale = scale' \<rparr>,
             pinchRef := p\<lparr> lastMidX := midX, lastMidY := midY \<rparr>,
             clampSoftUntilRef := now + 260 \<rparr>)"

definition panMove :: "PointerEvent \<Rightarrow> real \<Rightarrow> Engine \<Rightarrow> Engine" where
  "panMove e now s =
     (case lastMoveRef s of
        None \<Rightarrow> s
      | Some (lt, lx, ly) \<Rightarrow>
          let dx = clientX e - lx;
              dy = clientY e - ly;
              dtt = max (1 / 1000) ((now - lt) / 1000);
              sc = cam_scale (camRef s)
          in s\<lparr> camRef := (camRef s)\<lparr> cam_cx := cam_cx (camRef s) - dx / sc,
                                  cam_cy := cam_cy (camRef s) - dy / sc \<rparr>,
                 velRef := ((- dx / sc) / dtt, (- dy / sc) / dtt),
                 lastMoveRef := Some (now, clientX e, clientY e) \<rparr>)"

definition onPointerMove :: "PointerEvent \<Rightarrow> real \<Rightarrow> Engine \<Rightarrow> Engine" where
  "onPointerMove e now s =
     (if \<not> mapHas (pointerId e) (pointersRef s) then s
      else
        let s1 = s\<lparr> pointersRef := mapSet (pointerId e)
                       \<lparr> ps_id = pointerId e, ps_x = clientX e, ps_y = clientY e \<rparr> (pointersRef s) \<rparr>;
            s2 = s1\<lparr> tapRef := tapGate e (tapRef s1) \<rparr>
        in if pinch_active (pinchRef s2) \<and> length (pointersRef s2) = 2 then pinchMove now s2
           else panMove e now s2)"

text \<open>
  What a release did: \<open>NoTap\<close> when it was not classified as a tap (the \<open>else\<close>
  branch, or the return on \<open>elapsed > 450\<close>); otherwise the hit tests ran, and the
  release hit the logo, nothing, or a tile. \<open>TapTile tid called\<close> records the tile and
  whether \<open>onToggleLike(tid)\<close> was called.
\<close>

datatype up_outcome = NoTap | TapLogo | TapMiss | TapTile jsstring bool

text \<open>The part of \<open>onPointerUp\<close> that runs once the release is a tap in time.\<close>

definition tapAction :: "Rect \<Rightarrow> PointerEvent \<Rightarrow> real \<Rightarrow> Engine \<Rightarrow> Engine \<times> up_outcome" where
  "tapAction rect e now s =
     (let sx = clientX e - rect_left rect;
          sy = clientY e - rect_top rect
      in if hitTestLogo (camRef s) rect (centerWorldRef s) (obstacleRRef s) sx sy then
           (s\<lparr> focusRef := \<lparr> focus_active = True, focus_tx = 0, focus_ty = 0 \<rparr>,
               velRef := (0, 0), clampSoftUntilRef := now + 260 \<rparr>, TapLogo)
         else
           (case hitTest (camRef s) rect (nodesRef s) (radiusAnimRef s) sx sy of
              None \<Rightarrow> (s, TapMiss)
            | Some n \<Rightarrow>
                let alreadyLiked = (node_id n \<in> likedSetRef s);
                    s1 = s\<lparr> flipRef := setFlipTarget (node_id n) (if alreadyLiked then 0 else 1) (flipRef s) \<rparr>
                in if \<not> onToggleLikeRef s then (s1, TapTile (node_id n) False)
                   else if node_id n \<in> likeBusyRef s then (s1, TapTile (node_id n) False)
                   else (s1\<lparr> likeBusyRef := insert (node_id n) (likeBusyRef s1) \<rparr>,
                         TapTile (node_id n) True)))"

text \<open>
  \<open>onPointerUp\<close> (also the \<open>pointercancel\<close> handler) up to its \<open>await\<close>: an async
  function runs synchronously until then. \<open>releasePointer\<close> is its first part, the
  bookkeeping of \<open>pointersRef\<close>, \<open>pinchRef\<close>, \<open>draggingRef\<close> and \<open>lastMoveRef\<close>.
\<close>

definition releasePointer :: "PointerEvent \<Rightarrow> Engine \<Rightarrow> Engine" where
  "releasePointer e s =
     (let ps = mapDelete (pointerId e) (pointersRef s);
          s1 = s\<lparr> pointersRef := ps \<rparr>;
          s2 = (if length ps < 2 then s1\<lparr> pinchRef := (pinchRef s1)\<lparr> pinch_active := False \<rparr> \<rparr> else s1)
      in if length ps = 0 then s2\<lparr> draggingRef := False, lastMoveRef := None \<rparr> else s2)"

definition onPointerUp :: "Rect \<Rightarrow> PointerEvent \<Rightarrow> real \<Rightarrow> Engine \<Rightarrow> Engine \<times> up_outcome" where
  "onPointerUp rect e now s =
     (let s3 = releasePointer e s
      in case tapRef s3 of
           None \<Rightarrow> (s3, NoTap)
         | Some t \<Rightarrow>
             if tap_active t \<and> tap_pointerId t = pointerId e then
               (let elapsed = now - startT t;
                    s4 = s3\<lparr> tapRef := None \<rparr>
                in if elapsed > 450 then (s4, NoTap) else tapAction rect e now s4)
             else if tap_pointerId t = pointerId e then (s3\<lparr> tapRef := None \<rparr>, NoTap)
             else (s3, NoTap))"

text \<open>
  What follows the \<open>await\<close>. When the promise of \<open>onToggleLike(tid)\<close> is fulfilled at time
  \<open>now\<close> with \<open>{liked, likeCount}\<close>, the rest of the \<open>try\<close> block and the
  \<open>finally\<close> run; when it is rejected, only the \<open>finally\<close>.
\<close>

definition toggleResolved :: "jsstring \<Rightarrow> bool \<Rightarrow> nat \<Rightarrow> real \<Rightarrow> Engine \<Rightarrow> Engine" where
  "toggleResolved tid liked likes now s =
     s\<lparr> flipRef := setFlipTarget tid (if liked then 1 else 0) (flipRef s),
        toastRef := (toastRef s)(tid \<mapsto> \<lparr> toast_until = now + TOAST_MS, toast_likes = likes,
                                    toast_kind = (if liked then Like else Unlike) \<rparr>),
        likeBusyRef := likeBusyRef s - {tid} \<rparr>"

definition toggleRejected :: "jsstring \<Rightarrow> Engine \<Rightarrow> Engine" where
  "toggleRejected tid s = s\<lparr> likeBusyRef := likeBusyRef s - {tid} \<rparr>"

definition onWheel :: "Rect \<Rightarrow> PointerEvent \<Rightarrow> real \<Rightarrow> real \<Rightarrow> Engine \<Rightarrow> Engine" where
  "onWheel rect e deltaY now s =
     (let z = zoomAt rect now (clientX e - rect_left rect) (clientY e - rect_top rect)
                (if deltaY < 0 then 108 / 100 else 1 / (108 / 100)) (camRef s)
      in s\<lparr> camRef := fst z, clampSoftUntilRef := snd z \<rparr>)"

text \<open>
  The effects that run when the \<open>likedIds\<close> prop changes, in the order of the source:
  \<open>likedSetRef\<close> is replaced, the flips of the liked tiles are restored, and the size
  targets are recomputed from the current \<open>ideas\<close>.
\<close>

definition onLikedIds :: "jsstring list \<Rightarrow> Engine \<Rightarrow> Engine" where
  "onLikedIds likedIds s =
     (let r = restoreLikedFlips likedIds (flipRef s, prevLikedRef s)
      in s\<lparr> likedSetRef := set likedIds,
             flipRef := fst r,
             prevLikedRef := snd r,
             radiusAnimRef := setRadiusTargets (ideasProp s) (likeMapRef s) (set likedIds)
                                (radiusAnimRef s) \<rparr>)"

section \<open>IdeaMap.tsx: the text of a tile\<close>

text \<open>
  The calls the text branch of \<open>draw\<close> can make for one tile that was not culled, with the
  screen radius, the text or like count, and the alpha they are given.
\<close>

datatype text_call =
    DrawTextFront real jsstring real
  | DrawBackToast real nat real toast_kind
  | DrawBackOnlyMessage real jsstring real

text \<open>
  The branch itself. It returns the call made, if any, and \<open>toastRef.current\<close>, from
  which an expired toast is deleted.
\<close>

definition drawNodeText :: "real \<Rightarrow> (jsstring \<rightharpoonup> Flip) \<Rightarrow> real \<Rightarrow> real \<Rightarrow> real \<Rightarrow> real \<Rightarrow> Node
    \<Rightarrow> (jsstring \<rightharpoonup> Toast) \<Rightarrow> text_call option \<times> (jsstring \<rightharpoonup> Toast)" where
  "drawNodeText now flips frontAlpha backAlpha extraAlpha sr n toasts =
     (let p = (case flips (node_id n) of None \<Rightarrow> 0 | Some f \<Rightarrow> flip_p f);
          isFront = (p < 1 / 2)
      in if isFront then
           (if frontAlpha > 10 / 100 \<and> sr \<ge> 34
            then (Some (DrawTextFront sr (node_message n) (frontAlpha * extraAlpha)), toasts)
            else (None, toasts))
         else if backAlpha > 10 / 100 then
           (case toasts (node_id n) of
              None \<Rightarrow> (Some (DrawBackOnlyMessage sr (node_message n) (backAlpha * extraAlpha)), toasts)
            | Some t \<Rightarrow>
                if now < toast_until t
                then (Some (DrawBackToast sr (toast_likes t) (backAlpha * extraAlpha) (toast_kind t)),
                      toasts)
                else (Some (DrawBackOnlyMessage sr (node_message n) (backAlpha * extraAlpha)),
                      toasts(node_id n := None)))
         else (None, toasts))"

text \<open>\<open>`${likes}`\<close> for a natural number: its decimal digits.\<close>

fun decimal :: "nat \<Rightarrow> jsstring" where
  "decimal n =
     (if n < 10 then [word_of_nat (48 + n)]
      else decimal (n div 10) @ [word_of_nat (48 + n mod 10)])"

declare decimal.simps [simp del]

text \<open>
  The two lines \<open>drawBackToast\<close> writes with \<open>fillText\<close>, as UTF-16 code units: the
  title for the kind (two fixed Japanese sentences, "that's right!" with a thumbs-up and
  "like removed"), and the word for "total", a colon, a space and the like count. Nothing
  is written when the usable radius is under 14.
\<close>

definition toastTitle :: "toast_kind \<Rightarrow> jsstring" where
  "toastTitle kind =
     (case kind of
        Like \<Rightarrow> [0x305D, 0x308C, 0x306A, 0xFF01, 0xD83D, 0xDC4D]
      | Unlike \<Rightarrow> [0x3044, 0x3044, 0x306D, 0x3092, 0x89E3, 0x9664, 0x3057, 0x307E, 0x3057, 0x305F])"

definition drawBackToast :: "real \<Rightarrow> nat \<Rightarrow> toast_kind \<Rightarrow> jsstring list" where
  "drawBackToast sr likes kind =
     (let padding = max 12 (sr * (22 / 100));
          usableR = max 8 (sr - padding)
      in if usableR < 14 then []
         else [toastTitle kind, [0x5408, 0x8A08, 0x3A, 0x20] @ decimal likes])"

section \<open>The handlers as events\<close>

text \<open>
  The events of the canvas and of the like flow. A step returns the new state and the
  ids for which \<open>onToggleLike\<close> was called during the step.
\<close>

datatype event =
    EvPointerDown PointerEvent real
  | EvPointerMove PointerEvent real
  | EvPointerUp Rect PointerEvent real
  | EvWheel Rect PointerEvent real real
  | EvToggleResolved jsstring bool nat real
  | EvToggleRejected jsstring
  | EvLikedIds "jsstring list"

fun step :: "event \<Rightarrow> Engine \<Rightarrow> Engine \<times> jsstring list" where
  "step (EvPointerDown e now) s = (onPointerDown e now s, [])"
| "step (EvPointerMove e now) s = (onPointerMove e now s, [])"
| "step (EvPointerUp rect e now) s =
     (case onPointerUp rect e now s of
        (s', TapTile tid True) \<Rightarrow> (s', [tid])
      | (s', _) \<Rightarrow> (s', []))"
| "step (EvWheel rect e deltaY now) s = (onWheel rect e deltaY now s, [])"
| "step (EvToggleResolved tid liked likes now) s = (toggleResolved tid liked likes now s, [])"
| "step (EvToggleRejected tid) s = (toggleRejected tid s, [])"
| "step (EvLikedIds likedIds) s = (onLikedIds likedIds s, [])"

fun run :: "event list \<Rightarrow> Engine \<Rightarrow> Engine \<times> jsstring list" where
  "run [] s = (s, [])"
| "run (ev # evs) s =
     (case step ev s of (s1, calls1) \<Rightarrow>
        case run evs s1 of (s2, calls2) \<Rightarrow> (s2, calls1 @ calls2))"

text \<open>The events that settle the call made for tile \<open>tid\<close>.\<close>

fun settles :: "jsstring \<Rightarrow> event \<Rightarrow> bool" where
  "settles tid (EvToggleResolved tid' liked likes now) = (tid' = tid)"
| "settles tid (EvToggleRejected tid') = (tid' = tid)"
| "settles tid ev = False"

text \<open>
  One pointer going down, moving and going up: the moves are pairs of an event and its
  time.
\<close>

definition moveAll :: "(PointerEvent \<times> real) list \<Rightarrow> Engine \<Rightarrow> Engine" where
  "moveAll ms s = fold (\<lambda>m. onPointerMove (fst m) (snd m)) ms s"

definition tapGesture :: "Rect \<Rightarrow> PointerEvent \<Rightarrow> real \<Rightarrow> (PointerEvent \<times> real) list
    \<Rightarrow> PointerEvent \<Rightarrow> real \<Rightarrow> Engine \<Rightarrow> Engine \<times> up_outcome" where
  "tapGesture rect down t0 ms up t1 s =
     onPointerUp rect up t1 (moveAll ms (onPointerDown down t0 s))"

section \<open>Fixtures and auxiliary predicates\<close>

text \<open>
  The state used by the concrete instances below: an 800 by 600 viewport, the camera at
  the origin with scale 1, the logo obstacle of radius 70 at the world origin, and one
  unliked tile with id \<open>"a"\<close> and message \<open>"hi"\<close> at \<open>(117.04, 0)\<close> with the layout
  radius of a short message, \<open>39.04\<close>.
\<close>

definition demoRect :: Rect where
  "demoRect = \<lparr> rect_left = 0, rect_top = 0, rect_width = 800, rect_height = 600 \<rparr>"

definition demoNode :: Node where
  "demoNode = \<lparr> node_id = [0x61], node_message = [0x68, 0x69],
                 node_x = 2926 / 25, node_y = 0, node_r = 976 / 25 \<rparr>"

definition demoEngine :: Engine where
  "demoEngine =
     \<lparr> camRef = \<lparr> cam_cx = 0, cam_cy = 0, cam_scale = 1 \<rparr>,
       draggingRef = False,
       pointersRef = [],
       pinchRef = \<lparr> pinch_active = False, startDist = 0, startScale = 1,
                    lastMidX = 0, lastMidY = 0 \<rparr>,
       lastMoveRef = None,
       velRef = (0, 0),
       focusRef = \<lparr> focus_active = False, focus_tx = 0, focus_ty = 0 \<rparr>,
       clampSoftUntilRef = 0,
       tapRef = None,
       flipRef = Map.empty,
       likedSetRef = {},
       likeBusyRef = {},
       radiusAnimRef = Map.empty,
       toastRef = Map.empty,
       nodesRef = [demoNode],
       centerWorldRef = (0, 0),
       obstacleRRef = 70,
       onToggleLikeRef = True,
       prevLikedRef = [],
       likeMapRef = Map.empty,
       ideasProp = [\<lparr> idea_id = [0x61], idea_message = [0x68, 0x69], createdAt = None,
                      likeCount = Some 0 \<rparr>] \<rparr>"

definition pointerAt :: "real \<Rightarrow> real \<Rightarrow> PointerEvent" where
  "pointerAt px py = \<lparr> pointerId = 1, clientX = px, clientY = py \<rparr>"

text \<open>
  A tap on the tile at time \<open>t\<close>: the pointer goes down on it and is released 100 ms
  later. \<open>demoDown\<close>, \<open>demoUp\<close> and \<open>demoLiked\<close> are the states after the pointer went
  down at 1000, after its release at 1100, and after the call made by that release was
  fulfilled at 1500 with \<open>{liked: true, likeCount: 7}\<close>.
\<close>

definition tapOnTile :: "real \<Rightarrow> event list" where
  "tapOnTile t = [EvPointerDown (pointerAt 517 300) t, EvPointerUp demoRect (pointerAt 517 300) (t + 100)]"

definition demoDown :: Engine where
  "demoDown = onPointerDown (pointerAt 517 300) 1000 demoEngine"

definition demoUp :: Engine where
  "demoUp = fst (onPointerUp demoRect (pointerAt 517 300) 1100 demoDown)"

definition demoLiked :: Engine where
  "demoLiked = toggleResolved [0x61] True 7 1500 demoUp"

text \<open>Two fetches of the same two ideas that differ in like counts and timestamps only.\<close>

definition fetchedOnce :: "Idea list" where
  "fetchedOnce =
     [\<lparr> idea_id = [0x61], idea_message = [0x68, 0x69], createdAt = Some 1, likeCount = Some 0 \<rparr>,
      \<lparr> idea_id = [0x62], idea_message = [0x79, 0x6F], createdAt = Some 2, likeCount = None \<rparr>]"

definition fetchedAgain :: "Idea list" where
  "fetchedAgain =
     [\<lparr> idea_id = [0x61], idea_message = [0x68, 0x69], createdAt = None, likeCount = Some 41 \<rparr>,
      \<lparr> idea_id = [0x62], idea_message = [0x79, 0x6F], createdAt = Some 9, likeCount = Some 3 \<rparr>]"

text \<open>The options \<open>IdeaMap\<close> passes, for the default \<open>centerSize\<close> of 160.\<close>

definition appOptions :: LayoutOptions where
  "appOptions = \<lparr> opt_gap = Some 8, opt_density = Some (86 / 100), opt_iterations = Some 32,
      opt_centerObstacle = Some \<lparr> obs_x = 0, obs_y = 0, obs_r = 70 \<rparr> \<rparr>"

text \<open>One idea with one like, and options whose gap makes the grid cell size zero.\<close>

definition likedOnce :: "Idea list" where
  "likedOnce = [\<lparr> idea_id = [0x61], idea_message = [0x68, 0x69], createdAt = None,
                   likeCount = Some 1 \<rparr>]"










text \<open>
  While one pointer is down and nothing else happened, \<open>pointersRef\<close> holds that pointer
  only and \<open>tapRef\<close> holds the start of the gesture; \<open>a\<close> is its \<open>active\<close> flag.
\<close>

definition tracking :: "PointerEvent \<Rightarrow> real \<Rightarrow> bool \<Rightarrow> Engine \<Rightarrow> bool" where
  "tracking down t0 a s =
     (map fst (pointersRef s) = [pointerId down]
      \<and> tapRef s = Some \<lparr> tap_pointerId = pointerId down, startX = clientX down,
                          startY = clientY down, startT = t0, tap_active = a \<rparr>)"

section \<open>Verified properties\<close>

subsection \<open>Camera\<close>

text \<open>
  Claim C3 (camera round trip). For every screen point, every camera whose scale lies in
  \<open>[0.25, 3.0]\<close> and every viewport size, mapping the point to world coordinates with
  \<open>screenToWorld\<close> and back with \<open>worldToScreen\<close> returns the point. In real
  arithmetic the two sides are equal, so any tolerance is met.
\<close>

theorem camera_round_trip:
  assumes "25 / 100 \<le> cam_scale cam" and "cam_scale cam \<le> 3"
  shows "worldToScreen cam rect (fst (screenToWorld cam rect sx sy))
           (snd (screenToWorld cam rect sx sy)) = (sx, sy)"
  using assms by (simp add: worldToScreen_def screenToWorld_def)

theorem camera_round_trip_witness:
  "(25 / 100 \<le> cam_scale \<lparr> cam_cx = 10, cam_cy = - 5, cam_scale = 2 \<rparr>
    \<and> cam_scale \<lparr> cam_cx = 10, cam_cy = - 5, cam_scale = 2 \<rparr> \<le> 3)
   \<and> worldToScreen \<lparr> cam_cx = 10, cam_cy = - 5, cam_scale = 2 \<rparr>
         \<lparr> rect_left = 0, rect_top = 0, rect_width = 800, rect_height = 600 \<rparr>
         (fst (screenToWorld \<lparr> cam_cx = 10, cam_cy = - 5, cam_scale = 2 \<rparr>
            \<lparr> rect_left = 0, rect_top = 0, rect_width = 800, rect_height = 600 \<rparr> 100 50))
         (snd (screenToWorld \<lparr> cam_cx = 10, cam_cy = - 5, cam_scale = 2 \<rparr>
            \<lparr> rect_left = 0, rect_top = 0, rect_width = 800, rect_height = 600 \<rparr> 100 50))
       = (100, 50)"
  using camera_round_trip [of "\<lparr> cam_cx = 10, cam_cy = - 5, cam_scale = 2 \<rparr>"
      "\<lparr> rect_left = 0, rect_top = 0, rect_width = 800, rect_height = 600 \<rparr>" 100 50]
  by simp

lemma clamp_bounds: "lo \<le> hi \<Longrightarrow> lo \<le> clamp n lo hi \<and> clamp n lo hi \<le> hi"
  by (simp add: clamp_def)

lemma pinchMove_scale:
  "25 / 100 \<le> cam_scale (camRef (pinchMove now s)) \<and> cam_scale (camRef (pinchMove now s)) \<le> 3"
  using clamp_bounds [of "25 / 100" 3] by (simp add: pinchMove_def Let_def)

lemma panMove_scale: "cam_scale (camRef (panMove e now s)) = cam_scale (camRef s)"
  by (simp add: panMove_def Let_def split: option.splits prod.splits)

lemma zoomAt_scale:
  "25 / 100 \<le> cam_scale (fst (zoomAt rect now sx sy factor c))
   \<and> cam_scale (fst (zoomAt rect now sx sy factor c)) \<le> 3"
  using clamp_bounds [of "25 / 100" 3] by (simp add: zoomAt_def Let_def)

lemma step_keeps_scale:
  assumes "25 / 100 \<le> cam_scale (camRef s) \<and> cam_scale (camRef s) \<le> 3"
  shows "25 / 100 \<le> cam_scale (camRef (fst (step ev s)))
       \<and> cam_scale (camRef (fst (step ev s))) \<le> 3"
proof (cases ev)
  case (EvPointerDown e now)
  with assms show ?thesis by (simp add: onPointerDown_def startPinch_def Let_def)
next
  case (EvPointerMove e now)
  with assms show ?thesis
    by (simp add: onPointerMove_def pinchMove_scale [simplified] panMove_scale Let_def)
next
  case (EvPointerUp rect e now)
  have "camRef (fst (tapAction rect e now s0)) = camRef s0" for s0
    by (simp add: tapAction_def Let_def split: option.splits)
  moreover have "camRef (releasePointer e s) = camRef s"
    by (simp add: releasePointer_def Let_def)
  ultimately have "camRef (fst (onPointerUp rect e now s)) = camRef s"
    by (simp add: onPointerUp_def Let_def split: option.splits)
  moreover have "fst (step (EvPointerUp rect e now) s) = fst (onPointerUp rect e now s)"
    by (auto split: prod.splits up_outcome.splits bool.splits)
  ultimately show ?thesis using assms EvPointerUp by simp
next
  case (EvWheel rect e deltaY now)
  with assms show ?thesis by (simp add: onWheel_def zoomAt_scale [simplified] Let_def)
next
  case (EvToggleResolved tid liked likes now)
  with assms show ?thesis by (simp add: toggleResolved_def)
next
  case (EvToggleRejected tid)
  with assms show ?thesis by (simp add: toggleRejected_def)
next
  case (EvLikedIds likedIds)
  with assms show ?thesis by (simp add: onLikedIds_def Let_def)
qed

text \<open>
  Claim C4 (zoom pin invariant). For every screen point, every factor and every camera
  (its scale is never zero: the data model keeps it in \<open>[0.25, 3.0]\<close>), the world point
  under the screen point is the same after \<open>zoomAt\<close> as before, whether or not the new
  scale was clamped; and the new scale lies in \<open>[0.25, 3.0]\<close>.
\<close>

theorem zoomAt_pins_world_point:
  assumes "cam_scale cam \<noteq> 0"
  shows "screenToWorld (fst (zoomAt rect now sx sy factor cam)) rect sx sy
           = screenToWorld cam rect sx sy
         \<and> 25 / 100 \<le> cam_scale (fst (zoomAt rect now sx sy factor cam))
         \<and> cam_scale (fst (zoomAt rect now sx sy factor cam)) \<le> 3"
  using assms by (simp add: zoomAt_def screenToWorld_def Let_def clamp_def)

text \<open>The witness zooms in by a factor 2 from scale 2, so the new scale is clamped to 3.\<close>

theorem zoomAt_pins_world_point_witness:
  "cam_scale \<lparr> cam_cx = 10, cam_cy = - 5, cam_scale = 2 \<rparr> \<noteq> 0
   \<and> screenToWorld
        (fst (zoomAt \<lparr> rect_left = 0, rect_top = 0, rect_width = 800, rect_height = 600 \<rparr>
           1000 100 50 2 \<lparr> cam_cx = 10, cam_cy = - 5, cam_scale = 2 \<rparr>))
        \<lparr> rect_left = 0, rect_top = 0, rect_width = 800, rect_height = 600 \<rparr> 100 50
       = (- 140, - 130)
   \<and> cam_scale
        (fst (zoomAt \<lparr> rect_left = 0, rect_top = 0, rect_width = 800, rect_height = 600 \<rparr>
           1000 100 50 2 \<lparr> cam_cx = 10, cam_cy = - 5, cam_scale = 2 \<rparr>)) = 3"
  using zoomAt_pins_world_point [of "\<lparr> cam_cx = 10, cam_cy = - 5, cam_scale = 2 \<rparr>"
      "\<lparr> rect_left = 0, rect_top = 0, rect_width = 800, rect_height = 600 \<rparr>" 1000 100 50 2]
  by (simp add: zoomAt_def screenToWorld_def Let_def clamp_def)

lemma hypot_0: "hypot a 0 = \<bar>a\<bar>"
  by (simp add: hypot_def)

lemmas demo_defs = demoRect_def demoNode_def demoEngine_def pointerAt_def

lemmas handler_defs = onPointerDown_def onPointerMove_def onPointerUp_def releasePointer_def
  tapAction_def
  tapGate_def panMove_def mapHas_def mapDelete_def hitTest_def hitTestLogo_def
  screenToWorld_def visualMulNow_def setFlipTarget_def

subsection \<open>Tap classification\<close>

lemma tracking_down:
  "pointersRef s = [] \<Longrightarrow> tracking down t0 True (onPointerDown down t0 s)"
  by (simp add: tracking_def onPointerDown_def Let_def)

lemma mapSet_single: "map fst kvs = [k] \<Longrightarrow> map fst (mapSet k v kvs) = [k]"
  by (cases kvs) auto

lemma panMove_frame:
  "pointersRef (panMove e now s) = pointersRef s \<and> tapRef (panMove e now s) = tapRef s"
  by (simp add: panMove_def Let_def split: option.splits prod.splits)

lemma tracking_move:
  assumes "tracking down t0 a s" and "pointerId e = pointerId down"
  shows "tracking down t0
           (a \<and> hypot (clientX e - clientX down) (clientY e - clientY down) \<le> 8)
           (onPointerMove e now s)"
proof -
  from assms have has: "mapHas (pointerId e) (pointersRef s)"
    by (auto simp: tracking_def mapHas_def dest: arg_cong [where f = set])
  from assms have len: "length (mapSet (pointerId e) v (pointersRef s)) = 1" for v
    using mapSet_single [of "pointersRef s" "pointerId down" v]
    by (metis length_map tracking_def length_Cons list.size(3) One_nat_def)
  show ?thesis
    using assms has len
    by (auto simp: onPointerMove_def Let_def tracking_def panMove_frame mapSet_single
        tapGate_def not_less)
qed

lemma tracking_moveAll:
  "tracking down t0 a s \<Longrightarrow> \<forall>m \<in> set ms. pointerId (fst m) = pointerId down \<Longrightarrow>
   tracking down t0
     (a \<and> (\<forall>m \<in> set ms. hypot (clientX (fst m) - clientX down)
                              (clientY (fst m) - clientY down) \<le> 8))
     (moveAll ms s)"
proof (induction ms arbitrary: a s)
  case Nil
  then show ?case by (simp add: moveAll_def)
next
  case (Cons m ms)
  let ?near = "\<lambda>m. hypot (clientX (fst m) - clientX down) (clientY (fst m) - clientY down) \<le> 8"
  from Cons.prems have "tracking down t0 (a \<and> ?near m) (onPointerMove (fst m) (snd m) s)"
    by (simp add: tracking_move)
  from Cons.IH [OF this] Cons.prems(2)
  have "tracking down t0 ((a \<and> ?near m) \<and> (\<forall>m \<in> set ms. ?near m))
          (moveAll ms (onPointerMove (fst m) (snd m) s))" by simp
  moreover have "((a \<and> ?near m) \<and> (\<forall>m \<in> set ms. ?near m))
     = (a \<and> (\<forall>m' \<in> set (m # ms). ?near m'))" by auto
  ultimately show ?case by (simp add: moveAll_def)
qed

lemma tapAction_is_tap: "snd (tapAction rect e now s) \<noteq> NoTap"
  by (simp add: tapAction_def Let_def split: option.splits)

lemma releasePointer_frame:
  "tapRef (releasePointer e s) = tapRef s
   \<and> likeBusyRef (releasePointer e s) = likeBusyRef s
   \<and> flipRef (releasePointer e s) = flipRef s
   \<and> likedSetRef (releasePointer e s) = likedSetRef s
   \<and> toastRef (releasePointer e s) = toastRef s
   \<and> onToggleLikeRef (releasePointer e s) = onToggleLikeRef s"
  by (simp add: releasePointer_def Let_def)

lemma up_of_tracking:
  assumes "tracking down t0 a s" and "pointerId up = pointerId down"
  shows "snd (onPointerUp rect up t1 s) \<noteq> NoTap \<longleftrightarrow> a \<and> t1 - t0 \<le> 450"
  using assms
  by (auto simp: onPointerUp_def Let_def tracking_def tapAction_is_tap releasePointer_frame)

text \<open>
  Claim C5 as stated fails on the boundaries. First instance: the pointer goes down on
  the tile at \<open>(517, 300)\<close>, moves once to \<open>(525, 300)\<close>, a displacement of exactly 8 px,
  and is released there 100 ms after it went down. Second instance: it goes down and is
  released, without moving, exactly 450 ms later. The claim says that no tap action is
  taken in either case; the code runs the hit tests, finds the tile and calls
  \<open>onToggleLike\<close>.
\<close>

theorem tap_boundary_counterexample:
  "hypot (clientX (pointerAt 525 300) - clientX (pointerAt 517 300))
         (clientY (pointerAt 525 300) - clientY (pointerAt 517 300)) \<ge> 8
   \<and> snd (tapGesture demoRect (pointerAt 517 300) 1000 [(pointerAt 525 300, 1050)]
            (pointerAt 525 300) 1100 demoEngine) = TapTile [0x61] True
   \<and> (1450 :: real) - 1000 \<ge> 450
   \<and> snd (tapGesture demoRect (pointerAt 517 300) 1000 []
            (pointerAt 517 300) 1450 demoEngine) = TapTile [0x61] True"
  by (simp add: tapGesture_def moveAll_def handler_defs demo_defs hypot_0 Let_def)

text \<open>
  Claim C5, amended. One pointer goes down while no other pointer is down, moves any
  number of times and is released. The release is classified as a tap (the logo hit test
  and then the tile hit test run) exactly when at every move the displacement from the
  start position was at most 8 px and the time from down to up is at most 450 ms. So a
  displacement above 8 px at some move, or more than 450 ms, means that no tap action is
  taken, and a displacement of exactly 8 px or a duration of exactly 450 ms still is a tap.
\<close>

theorem tap_classification:
  assumes "pointersRef s = []"
    and "\<forall>m \<in> set ms. pointerId (fst m) = pointerId down"
    and "pointerId up = pointerId down"
  shows "snd (tapGesture rect down t0 ms up t1 s) \<noteq> NoTap
         \<longleftrightarrow> (\<forall>m \<in> set ms. hypot (clientX (fst m) - clientX down)
                                  (clientY (fst m) - clientY down) \<le> 8)
             \<and> t1 - t0 \<le> 450"
  using up_of_tracking [OF tracking_moveAll [OF tracking_down [OF assms(1)] assms(2)] assms(3)]
  by (simp add: tapGesture_def)

text \<open>
  The witness: a move of 3 px and a release after 100 ms is a tap; a move of 9 px is not,
  and neither is a release after 451 ms.
\<close>

theorem tap_classification_witness:
  "pointersRef demoEngine = []
   \<and> snd (tapGesture demoRect (pointerAt 517 300) 1000 [(pointerAt 520 300, 1050)]
            (pointerAt 520 300) 1100 demoEngine) \<noteq> NoTap
   \<and> snd (tapGesture demoRect (pointerAt 517 300) 1000 [(pointerAt 526 300, 1050)]
            (pointerAt 526 300) 1100 demoEngine) = NoTap
   \<and> snd (tapGesture demoRect (pointerAt 517 300) 1000 [(pointerAt 520 300, 1050)]
            (pointerAt 520 300) 1451 demoEngine) = NoTap"
  using tap_classification [of demoEngine "[(pointerAt 520 300, 1050)]" "pointerAt 517 300"
      "pointerAt 520 300" demoRect 1000 1100]
    tap_classification [of demoEngine "[(pointerAt 526 300, 1050)]" "pointerAt 517 300"
      "pointerAt 526 300" demoRect 1000 1100]
    tap_classification [of demoEngine "[(pointerAt 520 300, 1050)]" "pointerAt 517 300"
      "pointerAt 520 300" demoRect 1000 1451]
  by (simp add: demo_defs hypot_0)

subsection \<open>Content stability of the layout\<close>

text \<open>
  Claim C2 (content stability). Two idea lists with the same sequence of
  \<open>(id, message)\<close> pairs, whatever their like counts and timestamps, are laid out
  identically under the same options: the same result, node for node, position and radius
  included (or the same error). Two calls on the same input are the case of equal lists.
\<close>

theorem layout_content_stable:
  assumes "map (\<lambda>i. (idea_id i, idea_message i)) ideas1
         = map (\<lambda>i. (idea_id i, idea_message i)) ideas2"
  shows "layoutIdeas ideas1 opts = layoutIdeas ideas2 opts"
proof -
  from assms have len: "length ideas1 = length ideas2"
    by (rule map_eq_imp_length_eq)
  from assms have "map fst (map (\<lambda>i. (idea_id i, idea_message i)) ideas1)
      = map fst (map (\<lambda>i. (idea_id i, idea_message i)) ideas2)"
    by (rule arg_cong)
  then have ids: "map idea_id ideas1 = map idea_id ideas2"
    by (simp add: comp_def)
  from assms have "map snd (map (\<lambda>i. (idea_id i, idea_message i)) ideas1)
      = map snd (map (\<lambda>i. (idea_id i, idea_message i)) ideas2)"
    by (rule arg_cong)
  then have msgs: "map idea_message ideas1 = map idea_message ideas2"
    by (simp add: comp_def)
  have id_nth: "idea_id (ideas1 ! i) = idea_id (ideas2 ! i)" if "i < length ideas2" for i
    using that len nth_map [of i ideas1 idea_id] nth_map [of i ideas2 idea_id] ids by simp
  have msg_nth: "idea_message (ideas1 ! i) = idea_message (ideas2 ! i)"
    if "i < length ideas2" for i
    using that len nth_map [of i ideas1 idea_message] nth_map [of i ideas2 idea_message] msgs
    by simp
  have "initNodes sp ideas1 = initNodes sp ideas2" for sp
  proof (rule nth_equalityI)
    show "length (initNodes sp ideas1) = length (initNodes sp ideas2)"
      by (simp add: initNodes_def len)
  next
    fix i assume "i < length (initNodes sp ideas1)"
    then have i: "i < length ideas2" by (simp add: initNodes_def len)
    with len have i1: "i < length ideas1" by simp
    show "initNodes sp ideas1 ! i = initNodes sp ideas2 ! i"
      using i i1 id_nth [OF i] msg_nth [OF i]
      by (simp add: initNodes_def initNode_def len)
  qed
  then show ?thesis by (simp add: layoutIdeas_def)
qed

theorem layout_content_stable_witness:
  "map (\<lambda>i. (idea_id i, idea_message i)) fetchedOnce
     = map (\<lambda>i. (idea_id i, idea_message i)) fetchedAgain
   \<and> fetchedOnce \<noteq> fetchedAgain
   \<and> layoutIdeas fetchedOnce appOptions = layoutIdeas fetchedAgain appOptions"
  using layout_content_stable [of fetchedOnce fetchedAgain appOptions]
  by (simp add: fetchedOnce_def fetchedAgain_def)

subsection \<open>Restoring the flips of liked tiles\<close>

lemma set_newSet: "set (newSet xs) = set xs"
  by (induction xs) auto

lemma fold_flip_set:
  "fold (\<lambda>tid m. if P tid then m(tid \<mapsto> v) else m) xs m tid
     = (if tid \<in> set xs \<and> P tid then Some v else m tid)"
  by (induction xs arbitrary: m) auto

text \<open>
  Claim C10 (liked-set flip restoration). When the effect runs for a new \<open>likedIds\<close>
  snapshot, with \<open>prev\<close> the snapshot it saw before, the flip state of every id in the
  snapshot and not in \<open>prev\<close> becomes progress 1, target 1; that of every id in \<open>prev\<close>
  and not in the snapshot becomes progress 0, target 0; every other id keeps its state;
  and the snapshot is remembered. Progress is set together with the target, so nothing is
  animated: a tile newly in the snapshot (on the first run \<open>prev\<close> is empty, so every
  liked tile) takes the back-face branch of \<open>draw\<close> at once.
\<close>

theorem liked_flip_restore:
  "fst (restoreLikedFlips likedIds (m, prev)) tid =
     (if tid \<in> set likedIds \<and> tid \<notin> set prev then Some \<lparr> flip_p = 1, flip_target = 1 \<rparr>
      else if tid \<in> set prev \<and> tid \<notin> set likedIds then Some \<lparr> flip_p = 0, flip_target = 0 \<rparr>
      else m tid)
   \<and> set (snd (restoreLikedFlips likedIds (m, prev))) = set likedIds
   \<and> (node_id n \<in> set likedIds \<and> node_id n \<notin> set prev \<and> backAlpha > 10 / 100
        \<and> toasts (node_id n) = None \<longrightarrow>
        drawNodeText now (fst (restoreLikedFlips likedIds (m, prev)))
            frontAlpha backAlpha extraAlpha sr n toasts
          = (Some (DrawBackOnlyMessage sr (node_message n) (backAlpha * extraAlpha)), toasts))"
  by (auto simp: restoreLikedFlips_def Let_def fold_flip_set set_newSet drawNodeText_def)

text \<open>
  The witness: on the first run tiles \<open>"a"\<close> and \<open>"b"\<close> are liked and \<open>"a"\<close> is drawn
  from the back; when the next snapshot holds \<open>"b"\<close> only, \<open>"a"\<close> is reset to the front.
\<close>

theorem liked_flip_restore_witness:
  "fst (restoreLikedFlips [[0x61], [0x62]] (Map.empty, [])) [0x61]
     = Some \<lparr> flip_p = 1, flip_target = 1 \<rparr>
   \<and> drawNodeText 0 (fst (restoreLikedFlips [[0x61], [0x62]] (Map.empty, [])))
        1 1 1 50 demoNode Map.empty
     = (Some (DrawBackOnlyMessage 50 [0x68, 0x69] 1), Map.empty)
   \<and> fst (restoreLikedFlips [[0x62]]
        (fst (restoreLikedFlips [[0x61], [0x62]] (Map.empty, [])), [[0x61], [0x62]])) [0x61]
     = Some \<lparr> flip_p = 0, flip_target = 0 \<rparr>"
  using liked_flip_restore [of "[[0x61], [0x62]]" Map.empty "[]" "[0x61]" demoNode 1
      Map.empty 0 1 1 50]
    liked_flip_restore [of "[[0x62]]" "fst (restoreLikedFlips [[0x61], [0x62]] (Map.empty, []))"
      "[[0x61], [0x62]]" "[0x61]" demoNode 1 Map.empty 0 1 1 50]
  by (simp add: demoNode_def)

subsection \<open>The like flow\<close>

lemma tapAction_busy:
  "tapAction rect e now s = (s', out) \<Longrightarrow>
     likeBusyRef s \<subseteq> likeBusyRef s'
     \<and> (\<forall>tid called. out = TapTile tid called \<longrightarrow>
           (called \<longleftrightarrow> onToggleLikeRef s \<and> tid \<notin> likeBusyRef s)
           \<and> likeBusyRef s' = (if called then insert tid (likeBusyRef s) else likeBusyRef s))"
  by (auto simp: tapAction_def Let_def split: if_splits option.splits)

lemma tapAction_flip:
  "tapAction rect e now s = (s', TapTile tid called) \<Longrightarrow>
     flipRef s' = setFlipTarget tid (if tid \<in> likedSetRef s then 0 else 1) (flipRef s)"
  by (auto simp: tapAction_def Let_def split: if_splits option.splits)

lemma onPointerUp_cases:
  assumes "onPointerUp rect e now s = (s', out)"
  shows "(out = NoTap \<and> likeBusyRef s' = likeBusyRef s)
     \<or> (\<exists>s0. tapAction rect e now s0 = (s', out) \<and> likeBusyRef s0 = likeBusyRef s
            \<and> onToggleLikeRef s0 = onToggleLikeRef s \<and> flipRef s0 = flipRef s
            \<and> likedSetRef s0 = likedSetRef s)"
  using assms
  by (auto simp: onPointerUp_def Let_def releasePointer_frame split: option.splits if_splits)

lemma onPointerUp_busy:
  assumes "onPointerUp rect e now s = (s', out)"
  shows "likeBusyRef s \<subseteq> likeBusyRef s'
     \<and> (\<forall>tid called. out = TapTile tid called \<longrightarrow>
           (called \<longleftrightarrow> onToggleLikeRef s \<and> tid \<notin> likeBusyRef s)
           \<and> likeBusyRef s' = (if called then insert tid (likeBusyRef s) else likeBusyRef s))"
  using onPointerUp_cases [OF assms]
proof (elim disjE exE conjE)
  assume "out = NoTap" "likeBusyRef s' = likeBusyRef s"
  then show ?thesis by simp
next
  fix s0
  assume ta: "tapAction rect e now s0 = (s', out)"
    and same: "likeBusyRef s0 = likeBusyRef s" "onToggleLikeRef s0 = onToggleLikeRef s"
  from tapAction_busy [OF ta] same show ?thesis by simp
qed

lemma onPointerUp_flip:
  assumes "onPointerUp rect e now s = (s', TapTile tid called)"
  shows "flipRef s' = setFlipTarget tid (if tid \<in> likedSetRef s then 0 else 1) (flipRef s)"
  using onPointerUp_cases [OF assms]
proof (elim disjE exE conjE)
  assume "TapTile tid called = NoTap"
  then show ?thesis by simp
next
  fix s0
  assume ta: "tapAction rect e now s0 = (s', TapTile tid called)"
    and same: "flipRef s0 = flipRef s" "likedSetRef s0 = likedSetRef s"
  from tapAction_flip [OF ta] same show ?thesis by simp
qed

lemma onPointerDown_busy: "likeBusyRef (onPointerDown e now s) = likeBusyRef s"
  by (simp add: onPointerDown_def startPinch_def Let_def)

lemma onPointerMove_busy: "likeBusyRef (onPointerMove e now s) = likeBusyRef s"
  by (simp add: onPointerMove_def pinchMove_def panMove_def Let_def
      split: option.splits prod.splits)

lemma onWheel_busy: "likeBusyRef (onWheel rect e dy now s) = likeBusyRef s"
  by (simp add: onWheel_def Let_def)

lemma onLikedIds_busy: "likeBusyRef (onLikedIds ids s) = likeBusyRef s"
  by (simp add: onLikedIds_def Let_def)

lemma step_busy:
  assumes "tid \<in> likeBusyRef s" and "\<not> settles tid ev"
  shows "tid \<in> likeBusyRef (fst (step ev s)) \<and> tid \<notin> set (snd (step ev s))"
proof (cases ev)
  case (EvPointerUp rect e now)
  obtain s' out where up: "onPointerUp rect e now s = (s', out)"
    by (cases "onPointerUp rect e now s")
  from onPointerUp_busy [OF up] assms(1)
  have "tid \<in> likeBusyRef s'" and "out \<noteq> TapTile tid True"
    by auto
  with up EvPointerUp show ?thesis
    by (auto split: up_outcome.splits bool.splits)
next
  case (EvToggleResolved tid' liked likes now)
  with assms show ?thesis by (simp add: toggleResolved_def)
next
  case (EvToggleRejected tid')
  with assms show ?thesis by (simp add: toggleRejected_def)
qed (use assms in \<open>simp_all add: onPointerDown_busy onPointerMove_busy onWheel_busy
      onLikedIds_busy\<close>)

lemma run_busy:
  "tid \<in> likeBusyRef s \<Longrightarrow> \<forall>ev \<in> set evs. \<not> settles tid ev \<Longrightarrow>
     tid \<in> likeBusyRef (fst (run evs s)) \<and> tid \<notin> set (snd (run evs s))"
proof (induction evs arbitrary: s)
  case Nil
  then show ?case by simp
next
  case (Cons ev evs)
  from Cons.prems step_busy [of tid s ev]
  have 1: "tid \<in> likeBusyRef (fst (step ev s))" and 2: "tid \<notin> set (snd (step ev s))" by auto
  from Cons.IH [OF 1] Cons.prems(2) 2 show ?case
    by (auto split: prod.splits)
qed

text \<open>
  Claim C6 (toggle re-entrancy guard). A release that resolves to tile \<open>tid\<close> calls
  \<open>onToggleLike\<close> exactly when the callback is set and \<open>tid\<close> is not in \<open>likeBusyRef\<close>,
  and a release that makes the call puts \<open>tid\<close> into \<open>likeBusyRef\<close>. From a state with
  \<open>tid\<close> in \<open>likeBusyRef\<close>, no sequence of pointer, wheel and liked-set events and of
  settlements of other tiles' calls calls \<open>onToggleLike\<close> for \<open>tid\<close>, and \<open>tid\<close> is still in
  \<open>likeBusyRef\<close> afterwards. The settlement of the call for \<open>tid\<close>, fulfilled or
  rejected, takes \<open>tid\<close> out of \<open>likeBusyRef\<close>, so that the next tap on the tile makes
  the call again. (A tap during the outstanding call still sets the flip target before
  the guard is reached; only the call is suppressed.)
\<close>

theorem toggle_reentrancy_guard:
  "(tid \<in> likeBusyRef s \<and> (\<forall>ev \<in> set evs. \<not> settles tid ev)
      \<longrightarrow> tid \<notin> set (snd (run evs s)) \<and> tid \<in> likeBusyRef (fst (run evs s)))
   \<and> (onPointerUp rect e now s = (s', TapTile tid called)
      \<longrightarrow> (called \<longleftrightarrow> onToggleLikeRef s \<and> tid \<notin> likeBusyRef s)
          \<and> likeBusyRef s' = (if called then insert tid (likeBusyRef s) else likeBusyRef s))
   \<and> tid \<notin> likeBusyRef (toggleResolved tid liked likes now s)
   \<and> tid \<notin> likeBusyRef (toggleRejected tid s)"
  using run_busy [of tid s evs] onPointerUp_busy [of rect e now s s' "TapTile tid called"]
  by (simp add: toggleResolved_def toggleRejected_def)

lemmas run_defs = tapOnTile_def demoDown_def demoUp_def demoLiked_def toggleResolved_def
  TOAST_MS_def

text \<open>
  The witness: the first tap on the tile makes the call; a second tap while the call is
  outstanding makes none; after the call is fulfilled a third tap makes the call again.
\<close>

theorem toggle_reentrancy_guard_witness:
  "snd (run (tapOnTile 1000) demoEngine) = [[0x61]]
   \<and> [0x61] \<in> likeBusyRef (fst (run (tapOnTile 1000) demoEngine))
   \<and> [0x61] \<notin> set (snd (run (tapOnTile 2000) (fst (run (tapOnTile 1000) demoEngine))))
   \<and> [0x61] \<in> likeBusyRef (fst (run (tapOnTile 2000) (fst (run (tapOnTile 1000) demoEngine))))
   \<and> snd (run (tapOnTile 1000 @ tapOnTile 2000 @ [EvToggleResolved [0x61] True 1 3000]
              @ tapOnTile 4000) demoEngine) = [[0x61], [0x61]]"
  using toggle_reentrancy_guard [of "[0x61]" "fst (run (tapOnTile 1000) demoEngine)"
      "tapOnTile 2000" demoRect "pointerAt 517 300" 1100 demoUp True True 1]
  by (simp add: run_defs handler_defs demo_defs hypot_0 Let_def)

lemma decimal_7: "decimal 7 = [0x37]"
  by (simp add: decimal.simps)

text \<open>
  Claim C7 (like-toast flow). If a release resolves to a tile that is not in the liked
  set and calls \<open>onToggleLike\<close>, then in the state in which the call is made the flip
  target of the tile is already 1. When the call is fulfilled at time \<open>t\<close> with
  \<open>{liked: true, likeCount: 7}\<close>, the tile gets a toast of kind like with like count 7 that
  lasts until \<open>t + 2200\<close>, and its flip target is 1. A frame that draws the back of the
  tile (flip progress at least one half, back alpha above 0.1) calls \<open>drawBackToast\<close> with
  the count 7 while \<open>now < t + 2200\<close>, and from \<open>t + 2200\<close> on deletes the toast and calls
  \<open>drawBackOnlyMessage\<close> with the idea's message, no count. For a tile of screen radius
  26 or more \<open>drawBackToast\<close> writes the title line of a like and the line made of the
  word for "total", a colon, a space and the digit 7. The window is
  \<open>TOAST_MS\<close>, 2200 ms.
\<close>

theorem like_toast_flow:
  assumes "onPointerUp rect e now s = (s1, TapTile tid True)" and "tid \<notin> likedSetRef s"
  shows "(\<exists>f. flipRef s1 tid = Some f \<and> flip_target f = 1)
    \<and> toastRef (toggleResolved tid True 7 t s2) tid
        = Some \<lparr> toast_until = t + 2200, toast_likes = 7, toast_kind = Like \<rparr>
    \<and> (\<exists>f. flipRef (toggleResolved tid True 7 t s2) tid = Some f \<and> flip_target f = 1)
    \<and> (node_id n = tid \<and> flips tid = Some f \<and> flip_p f \<ge> 1 / 2 \<and> backAlpha > 10 / 100 \<longrightarrow>
         (now' < t + 2200 \<longrightarrow>
            drawNodeText now' flips frontAlpha backAlpha extraAlpha sr n
                (toastRef (toggleResolved tid True 7 t s2))
              = (Some (DrawBackToast sr 7 (backAlpha * extraAlpha) Like),
                 toastRef (toggleResolved tid True 7 t s2)))
         \<and> (now' \<ge> t + 2200 \<longrightarrow>
            drawNodeText now' flips frontAlpha backAlpha extraAlpha sr n
                (toastRef (toggleResolved tid True 7 t s2))
              = (Some (DrawBackOnlyMessage sr (node_message n) (backAlpha * extraAlpha)),
                 (toastRef (toggleResolved tid True 7 t s2))(tid := None))))
    \<and> (26 \<le> sr \<longrightarrow> drawBackToast sr 7 Like
          = [toastTitle Like, [0x5408, 0x8A08, 0x3A, 0x20, 0x37]])"
  using onPointerUp_flip [OF assms(1)] assms(2)
  by (auto simp: setFlipTarget_def toggleResolved_def TOAST_MS_def drawNodeText_def
      drawBackToast_def decimal_7 Let_def split: option.splits)

text \<open>
  The witness: the tap of the fixture. The tile had no flip state, so its progress is 1
  at once; the toast is drawn at 2000 and at 3699, and at 3700 the plain message is.
\<close>

theorem like_toast_flow_witness:
  "onPointerUp demoRect (pointerAt 517 300) 1100 demoDown = (demoUp, TapTile [0x61] True)
   \<and> [0x61] \<notin> likedSetRef demoDown
   \<and> flipRef demoUp [0x61] = Some \<lparr> flip_p = 1, flip_target = 1 \<rparr>
   \<and> drawNodeText 2000 (flipRef demoLiked) 1 1 1 50 demoNode (toastRef demoLiked)
       = (Some (DrawBackToast 50 7 1 Like), toastRef demoLiked)
   \<and> drawNodeText 3699 (flipRef demoLiked) 1 1 1 50 demoNode (toastRef demoLiked)
       = (Some (DrawBackToast 50 7 1 Like), toastRef demoLiked)
   \<and> drawNodeText 3700 (flipRef demoLiked) 1 1 1 50 demoNode (toastRef demoLiked)
       = (Some (DrawBackOnlyMessage 50 [0x68, 0x69] 1), (toastRef demoLiked)([0x61] := None))
   \<and> drawBackToast 50 7 Like = [toastTitle Like, [0x5408, 0x8A08, 0x3A, 0x20, 0x37]]"
  using like_toast_flow [where rect = demoRect and e = "pointerAt 517 300" and now = 1100
      and s = demoDown and ?s1.0 = demoUp and tid = "[0x61]" and t = 1500 and ?s2.0 = demoUp
      and n = demoNode and flips = "flipRef demoLiked"
      and f = "\<lparr> flip_p = 1, flip_target = 1 \<rparr>" and backAlpha = 1 and now' = 2000
      and frontAlpha = 1 and extraAlpha = 1 and sr = 50]
  by (simp add: run_defs handler_defs demo_defs hypot_0 Let_def drawNodeText_def
      drawBackToast_def decimal_7)

subsection \<open>The size pulse and the layout radius\<close>

lemma computeTargetMul_range:
  "1 \<le> computeTargetMul likes liked \<and> computeTargetMul likes liked \<le> MAX_VISUAL_MUL"
  unfolding computeTargetMul_def Let_def
  by (rule clamp_bounds) (simp add: MAX_VISUAL_MUL_def)

lemma layoutRadius_inflated: "layoutRadius len = baseR * textScale len * LAYOUT_MAX_VISUAL_MUL"
proof -
  have "1 \<le> textScale len \<and> textScale len \<le> 128 / 100"
    unfolding textScale_def by (rule clamp_bounds) simp
  then show ?thesis
    by (simp add: layoutRadius_def clamp_def baseR_def LAYOUT_MAX_VISUAL_MUL_def maxR_def)
qed

lemma computeTargetMul_one_like: "computeTargetMul (Suc 0) False = 105 / 100"
proof -
  have "log 2 (real (Suc 0) + 1) = 1" by simp
  then show ?thesis
    by (simp add: computeTargetMul_def clamp_def MAX_VISUAL_MUL_def Let_def)
qed

text \<open>
  Claim C8 (size-pulse target bound). The target is a function of the like count and the
  liked flag and lies in \<open>[1, MAX_VISUAL_MUL]\<close> (\<open>computeTargetMul_range\<close>);
  \<open>MAX_VISUAL_MUL\<close> equals the factor that \<open>layoutIdeas\<close> multiplies into every layout
  radius (\<open>layoutRadius_inflated\<close>). The conclusion of the claim fails on the code: \<open>draw\<close>
  and \<open>hitTest\<close> multiply the layout radius, which already holds that factor, by the
  visual multiplier again. The instance: the tile of the fixture has the layout radius
  39.04 of its two-letter message; with one like its multiplier is 1.05, and the world
  point 40 units from its centre, outside its layout circle, hits the tile.
\<close>

theorem visual_radius_exceeds_layout_radius:
  "MAX_VISUAL_MUL \<le> LAYOUT_MAX_VISUAL_MUL
   \<and> node_r demoNode = layoutRadius (length (node_message demoNode))
   \<and> visualMulNow (setRadiusTargets likedOnce (likeMapOf likedOnce) {} Map.empty) [0x61] = 105 / 100
   \<and> hypot (node_x demoNode - fst (screenToWorld (camRef demoEngine) demoRect (13926 / 25) 300))
            (node_y demoNode - snd (screenToWorld (camRef demoEngine) demoRect (13926 / 25) 300)) = 40
   \<and> 40 > node_r demoNode
   \<and> hitTest (camRef demoEngine) demoRect [demoNode]
        (setRadiusTargets likedOnce (likeMapOf likedOnce) {} Map.empty) (13926 / 25) 300
       = Some demoNode"
  by (simp add: MAX_VISUAL_MUL_def LAYOUT_MAX_VISUAL_MUL_def demo_defs layoutRadius_inflated
      textScale_def clamp_def baseR_def visualMulNow_def setRadiusTargets_def likeMapOf_def
      likedOnce_def computeTargetMul_one_like hypot_0 screenToWorld_def hitTest_def Let_def)

subsection \<open>Totality of the layout\<close>
















subsection \<open>No overlap after relaxation\<close>











































end
